theory Spec2Isabelle
  imports Complex_Main "HOL-Library.Word"
begin

section \<open>Python values\<close>

text \<open>
  The handler works on JSON-decoded data: \<open>None\<close>, booleans, integers, floats, strings,
  lists and dictionaries. A float is a rational (every finite binary64 value is one), an
  infinity or NaN; Python compares integers and floats exactly, so the comparisons below
  are comparisons of rationals. A dictionary is an association list in insertion
  order, read with \<open>map_of\<close>.
\<close>

datatype pyfloat = Finite rat | PosInf | NegInf | NaN

datatype pyval =
    PNone
  | PBool bool
  | PInt int
  | PFloat pyfloat
  | PStr string
  | PList "pyval list"
  | PDict "(string \<times> pyval) list"

type_synonym dict = "(string \<times> pyval) list"

text \<open>An exception carries the text that \<open>str(e)\<close> gives.\<close>

datatype py_exn =
    TypeError string
  | AttributeError string
  | ValueError string
  | StoreError string

fun exn_str :: "py_exn \<Rightarrow> string" where
  "exn_str (TypeError m) = m"
| "exn_str (AttributeError m) = m"
| "exn_str (ValueError m) = m"
| "exn_str (StoreError m) = m"

fun type_name :: "pyval \<Rightarrow> string" where
  "type_name PNone = ''NoneType''"
| "type_name (PBool b) = ''bool''"
| "type_name (PInt n) = ''int''"
| "type_name (PFloat f) = ''float''"
| "type_name (PStr s) = ''str''"
| "type_name (PList xs) = ''list''"
| "type_name (PDict d) = ''dict''"

text \<open>A name between single quotes, as the interpreter's messages print it.\<close>

definition quoted :: "string \<Rightarrow> string" where
  "quoted s = CHR 0x27 # s @ [CHR 0x27]"

text \<open>Truthiness, as \<open>if x\<close> and \<open>not x\<close> read a value.\<close>

fun truthy :: "pyval \<Rightarrow> bool" where
  "truthy PNone = False"
| "truthy (PBool b) = b"
| "truthy (PInt n) = (n \<noteq> 0)"
| "truthy (PFloat (Finite r)) = (r \<noteq> 0)"
| "truthy (PFloat f) = True"
| "truthy (PStr s) = (s \<noteq> [])"
| "truthy (PList xs) = (xs \<noteq> [])"
| "truthy (PDict d) = (d \<noteq> [])"

text \<open>The numeric value of a number (\<open>bool\<close> is a subclass of \<open>int\<close>).\<close>

fun as_float :: "pyval \<Rightarrow> pyfloat option" where
  "as_float (PBool b) = Some (Finite (if b then 1 else 0))"
| "as_float (PInt n) = Some (Finite (of_int n))"
| "as_float (PFloat f) = Some f"
| "as_float v = None"

text \<open>\<open>a < b\<close> on floats: false as soon as one side is NaN.\<close>

fun float_less :: "pyfloat \<Rightarrow> pyfloat \<Rightarrow> bool" where
  "float_less NaN b = False"
| "float_less a NaN = False"
| "float_less (Finite a) (Finite b) = (a < b)"
| "float_less (Finite a) PosInf = True"
| "float_less (Finite a) NegInf = False"
| "float_less PosInf b = False"
| "float_less NegInf NegInf = False"
| "float_less NegInf b = True"

text \<open>\<open>v > n\<close> for an integer literal \<open>n\<close>: a TypeError unless \<open>v\<close> is a number.\<close>

definition py_gt_int :: "pyval \<Rightarrow> int \<Rightarrow> py_exn + bool" where
  "py_gt_int v n =
     (case as_float v of
        None \<Rightarrow> Inl (TypeError (quoted ''>'' @ '' not supported between instances of ''
                 @ quoted (type_name v) @ '' and '' @ quoted ''int''))
      | Some f \<Rightarrow> Inr (float_less (Finite (of_int n)) f))"

text \<open>\<open>v == n\<close> for an integer literal \<open>n\<close>; it never raises.\<close>

definition py_eq_int :: "pyval \<Rightarrow> int \<Rightarrow> bool" where
  "py_eq_int v n = (as_float v = Some (Finite (of_int n)))"

text \<open>\<open>d.get(k, default)\<close> and \<open>d.get(k)\<close> on a dictionary.\<close>

definition dict_get :: "dict \<Rightarrow> string \<Rightarrow> pyval \<Rightarrow> pyval" where
  "dict_get d k dflt = (case map_of d k of None \<Rightarrow> dflt | Some v \<Rightarrow> v)"

text \<open>\<open>x.get(k, default)\<close> on any value: only a dictionary has the method.\<close>

definition py_get :: "pyval \<Rightarrow> string \<Rightarrow> pyval \<Rightarrow> py_exn + pyval" where
  "py_get x k dflt =
     (case x of
        PDict d \<Rightarrow> Inr (dict_get d k dflt)
      | _ \<Rightarrow> Inl (AttributeError (quoted (type_name x) @ '' object has no attribute ''
                 @ quoted ''get'')))"

text \<open>\<open>d[k] = v\<close>: the key keeps its place if present, and is appended otherwise.\<close>

fun dict_set :: "dict \<Rightarrow> string \<Rightarrow> pyval \<Rightarrow> dict" where
  "dict_set [] k v = [(k, v)]"
| "dict_set ((k', v') # d) k v = (if k' = k then (k, v) # d else (k', v') # dict_set d k v)"

section \<open>The health scorer\<close>

text \<open>
  \<open>calculate_health_score\<close> (lines 44 to 81). The score is threaded through the seven
  blocks in the order of the source. A comparison of a non-number raises TypeError, and
  \<open>framework_data.get\<close> on a value that is no dictionary raises AttributeError; \<open>any\<close>
  stops at the first truthy flag.
\<close>

fun any_framework :: "pyval \<Rightarrow> string list \<Rightarrow> py_exn + bool" where
  "any_framework framework_data [] = Inr False"
| "any_framework framework_data (fw # fws) =
     (case py_get framework_data fw (PBool False) of
        Inl e \<Rightarrow> Inl e
      | Inr flag \<Rightarrow> if truthy flag then Inr True else any_framework framework_data fws)"

definition calculate_health_score :: "pyval \<Rightarrow> py_exn + int" where
  "calculate_health_score scraped_data =
     (case scraped_data of
        PDict sd \<Rightarrow>
          (let score = (0::int);
               score = (if py_eq_int (dict_get sd ''status_code'' (PInt 0)) 200
                        then score + 20 else score);
               content_length = dict_get sd ''content_length'' (PInt 0)
           in (case py_gt_int content_length 1000 of Inl e \<Rightarrow> Inl e | Inr gt1000 \<Rightarrow>
              (case (if gt1000 then Inr False else py_gt_int content_length 500) of
                 Inl e \<Rightarrow> Inl e
               | Inr gt500 \<Rightarrow>
              (let score = (if gt1000 then score + 20 else if gt500 then score + 10 else score);
                   score = (if truthy (dict_get sd ''title'' PNone) then score + 15 else score);
                   score = (if truthy (dict_get sd ''description'' PNone) then score + 10 else score);
                   links_count = dict_get sd ''links_count'' (PInt 0)
               in (case py_gt_int links_count 10 of Inl e \<Rightarrow> Inl e | Inr gt10 \<Rightarrow>
                  (case (if gt10 then Inr False else py_gt_int links_count 5) of
                     Inl e \<Rightarrow> Inl e
                   | Inr gt5 \<Rightarrow>
                  (let score = (if gt10 then score + 15 else if gt5 then score + 10 else score);
                       score = (if truthy (dict_get sd ''has_ssl'' (PBool False))
                                then score + 10 else score);
                       framework_data = dict_get sd ''framework_detection'' (PDict [])
                   in (case any_framework framework_data [''react'', ''vue'', ''angular''] of
                         Inl e \<Rightarrow> Inl e
                       | Inr any_fw \<Rightarrow>
                           (let score = (if any_fw then score + 10 else score)
                            in Inr (min score 100))))))))))
      | _ \<Rightarrow> Inl (AttributeError (quoted (type_name scraped_data)
                 @ '' object has no attribute '' @ quoted ''get'')))"

section \<open>Validators\<close>

text \<open>
  The standard library and the runtime are outside the repository; the model takes
  them as parameters. \<open>json_loads\<close> is \<open>json.loads\<close> on a string (\<open>None\<close> is
  JSONDecodeError), \<open>json_dumps\<close> is \<open>json.dumps\<close>, \<open>urlparse\<close> gives the scheme and
  the netloc of \<open>urllib.parse.urlparse\<close> on a string or the exception it raises,
  \<open>uuid4\<close> is the 128-bit value that \<open>uuid.uuid4()\<close> draws and \<open>utcnow\<close> the
  reading of the clock.
\<close>

record datetime =
  year :: nat
  month :: nat
  day :: nat
  hour :: nat
  minute :: nat
  second :: nat
  microsecond :: nat

record env =
  json_loads :: "string \<Rightarrow> pyval option"
  json_dumps :: "pyval \<Rightarrow> string"
  urlparse :: "string \<Rightarrow> py_exn + (string \<times> string)"
  uuid4 :: "128 word"
  utcnow :: datetime

text \<open>
  \<open>validate_url\<close> (lines 31 to 37). \<open>all([result.scheme, result.netloc])\<close> is true when
  both strings are non-empty; the bare \<open>except\<close> turns every exception into \<open>False\<close>.
  On a value that is not a string, \<open>urlparse\<close> either raises (a truthy value has no
  \<open>decode\<close>) or returns empty components (a falsy one): \<open>False\<close> both ways.
\<close>

definition validate_url :: "env \<Rightarrow> pyval \<Rightarrow> bool" where
  "validate_url E url =
     (case url of
        PStr s \<Rightarrow>
          (case urlparse E s of
             Inl e \<Rightarrow> False
           | Inr (scheme, netloc) \<Rightarrow> scheme \<noteq> [] \<and> netloc \<noteq> [])
      | _ \<Rightarrow> False)"

text \<open>\<open>needle in haystack\<close> on strings: a substring test.\<close>

fun starts_with :: "string \<Rightarrow> string \<Rightarrow> bool" where
  "starts_with [] s = True"
| "starts_with (c # cs) [] = False"
| "starts_with (c # cs) (d # ds) = (c = d \<and> starts_with cs ds)"

fun str_contains :: "string \<Rightarrow> string \<Rightarrow> bool" where
  "str_contains needle [] = (needle = [])"
| "str_contains needle (c # cs) = (starts_with needle (c # cs) \<or> str_contains needle cs)"

text \<open>
  \<open>field in data\<close> for a string \<open>field\<close>: a key of a dictionary, an element of a
  list, a substring of a string; any other value is not iterable.
\<close>

definition py_in :: "string \<Rightarrow> pyval \<Rightarrow> py_exn + bool" where
  "py_in field data =
     (case data of
        PDict d \<Rightarrow> Inr (map_of d field \<noteq> None)
      | PList xs \<Rightarrow> Inr (PStr field \<in> set xs)
      | PStr s \<Rightarrow> Inr (str_contains field s)
      | _ \<Rightarrow> Inl (TypeError (''argument of type '' @ quoted (type_name data)
                 @ '' is not iterable'')))"

text \<open>\<open>all(field in data for field in fields)\<close>: it stops at the first \<open>False\<close>.\<close>

fun all_fields_in :: "string list \<Rightarrow> pyval \<Rightarrow> py_exn + bool" where
  "all_fields_in [] data = Inr True"
| "all_fields_in (field # others) data =
     (case py_in field data of
        Inl e \<Rightarrow> Inl e
      | Inr b \<Rightarrow> if b then all_fields_in others data else Inr False)"

text \<open>\<open>validate_scraped_data\<close> (lines 39 to 42).\<close>

definition validate_scraped_data :: "pyval \<Rightarrow> py_exn + bool" where
  "validate_scraped_data data =
     (let required_fields = [''url'', ''title'', ''content'']
      in all_fields_in required_fields data)"

section \<open>Project identifiers and timestamps\<close>

text \<open>
  \<open>uuid.uuid4().hex\<close> is the 128-bit value in 32 lowercase hexadecimal digits, most
  significant first; \<open>generate_project_id\<close> (lines 83 to 85) keeps the first 12.
\<close>

definition hexdigit :: "nat \<Rightarrow> char" where
  "hexdigit n = ''0123456789abcdef'' ! n"

definition uuid_hex :: "128 word \<Rightarrow> string" where
  "uuid_hex u = map (\<lambda>i. hexdigit (unat (take_bit 4 (drop_bit (4 * (31 - i)) u)))) [0..<32]"

definition generate_project_id :: "env \<Rightarrow> string" where
  "generate_project_id E = ''project_'' @ take 12 (uuid_hex (uuid4 E))"

text \<open>
  \<open>datetime.isoformat()\<close> of a naive datetime: \<open>%04d-%02d-%02dT%02d:%02d:%02d\<close>, then
  \<open>.%06d\<close> when the microsecond is not zero.
\<close>

definition digit :: "nat \<Rightarrow> char" where
  "digit n = ''0123456789'' ! (n mod 10)"

fun dec :: "nat \<Rightarrow> string" where
  "dec n = (if n < 10 then [digit n] else dec (n div 10) @ [digit n])"

definition zpad :: "nat \<Rightarrow> nat \<Rightarrow> string" where
  "zpad w n = replicate (w - length (dec n)) (CHR ''0'') @ dec n"

definition isoformat :: "datetime \<Rightarrow> string" where
  "isoformat dt =
     zpad 4 (year dt) @ ''-'' @ zpad 2 (month dt) @ ''-'' @ zpad 2 (day dt) @ ''T''
     @ zpad 2 (hour dt) @ '':'' @ zpad 2 (minute dt) @ '':'' @ zpad 2 (second dt)
     @ (if microsecond dt \<noteq> 0 then ''.'' @ zpad 6 (microsecond dt) else [])"

section \<open>The project store\<close>

text \<open>
  The DynamoDB table is outside the repository: a store state \<open>'s\<close> with the two calls
  the code makes. \<open>query\<close> takes the two expression values and gives the response or
  the exception raised; \<open>put_item\<close> gives the new state or the exception raised.
\<close>

record 's table =
  query :: "'s \<Rightarrow> pyval \<Rightarrow> pyval \<Rightarrow> py_exn + pyval"
  put_item :: "'s \<Rightarrow> pyval \<Rightarrow> py_exn + 's"

definition py_len :: "pyval \<Rightarrow> py_exn + nat" where
  "py_len x =
     (case x of
        PStr s \<Rightarrow> Inr (length s)
      | PList xs \<Rightarrow> Inr (length xs)
      | PDict d \<Rightarrow> Inr (length d)
      | _ \<Rightarrow> Inl (TypeError (''object of type '' @ quoted (type_name x) @ '' has no len()'')))"

text \<open>
  \<open>check_duplicate_project\<close> (lines 116 to 131): every exception of the \<open>try\<close> block
  is caught and gives \<open>False\<close>.
\<close>

definition check_duplicate_project :: "'s table \<Rightarrow> 's \<Rightarrow> pyval \<Rightarrow> pyval \<Rightarrow> bool" where
  "check_duplicate_project T st user_id website_url =
     (case query T st user_id website_url of
        Inl e \<Rightarrow> False
      | Inr response \<Rightarrow>
          (case py_get response ''Items'' (PList []) of
             Inl e \<Rightarrow> False
           | Inr items \<Rightarrow>
               (case py_len items of
                  Inl e \<Rightarrow> False
                | Inr n \<Rightarrow> n > 0)))"

text \<open>
  \<open>create_project\<close> (lines 87 to 114). The health score is computed before the item is
  built, so \<open>scraped_data\<close> is a dictionary where its title is read.
\<close>

definition create_project ::
  "env \<Rightarrow> 's table \<Rightarrow> 's \<Rightarrow> pyval \<Rightarrow> pyval \<Rightarrow> pyval \<Rightarrow> pyval \<Rightarrow> pyval \<Rightarrow> py_exn + (pyval \<times> 's)" where
  "create_project E T st user_id website_url category description scraped_data =
     (let project_id = generate_project_id E;
          current_time = isoformat (utcnow E) @ ''Z''
      in (case calculate_health_score scraped_data of
            Inl e \<Rightarrow> Inl e
          | Inr health_score \<Rightarrow>
          (case py_get scraped_data ''title'' website_url of
            Inl e \<Rightarrow> Inl e
          | Inr title \<Rightarrow>
          (let project_item = PDict
                 [(''user_id'', user_id),
                  (''project_id'', PStr project_id),
                  (''website_url'', website_url),
                  (''category'', category),
                  (''description'', description),
                  (''title'', title),
                  (''health_score'', PInt health_score),
                  (''last_checked'', PStr current_time),
                  (''status'', PStr ''active''),
                  (''created_at'', PStr current_time),
                  (''updated_at'', PStr current_time),
                  (''scraped_data'', scraped_data)]
           in (case put_item T st project_item of
                 Inl e \<Rightarrow> Inl e
               | Inr st' \<Rightarrow> Inr (project_item, st'))))))"

section \<open>The request handler\<close>

text \<open>\<open>create_response\<close> (lines 15 to 29).\<close>

definition create_response :: "env \<Rightarrow> pyval \<Rightarrow> int \<Rightarrow> bool \<Rightarrow> pyval" where
  "create_response E data status_code is_api_gateway =
     (if is_api_gateway then
        PDict [(''statusCode'', PInt status_code),
               (''headers'', PDict
                  [(''Content-Type'', PStr ''application/json''),
                   (''Access-Control-Allow-Origin'', PStr ''*''),
                   (''Access-Control-Allow-Headers'', PStr ''Content-Type''),
                   (''Access-Control-Allow-Methods'', PStr ''POST, OPTIONS'')]),
               (''body'', PStr (json_dumps E data))]
      else data)"

definition error_payload :: "string \<Rightarrow> pyval" where
  "error_payload msg = PDict [(''success'', PBool False), (''error'', PStr msg)]"

text \<open>The response of the outer \<open>except\<close> (lines 205 to 211).\<close>

definition internal_error :: "env \<Rightarrow> py_exn \<Rightarrow> bool \<Rightarrow> pyval" where
  "internal_error E e is_api_gateway =
     create_response E
       (PDict [(''success'', PBool False), (''error'', PStr ''Internal server error''),
               (''message'', PStr (exn_str e))])
       500 is_api_gateway"

text \<open>Line 137: \<open>isinstance(event, dict) and 'body' in event\<close>.\<close>

definition is_api_gateway :: "pyval \<Rightarrow> bool" where
  "is_api_gateway event = (case event of PDict ev \<Rightarrow> map_of ev ''body'' \<noteq> None | _ \<Rightarrow> False)"

text \<open>
  Lines 139 to 150: the body of the request. \<open>json.loads\<close> of a value that is not a
  string raises TypeError, which only the outer \<open>except\<close> catches.
\<close>

datatype parsed = BadJson | ParseRaise py_exn | Body pyval

definition parse_body :: "env \<Rightarrow> pyval \<Rightarrow> parsed" where
  "parse_body E event =
     (if is_api_gateway event then
        (case py_get event ''body'' (PStr ''{}'') of
           Inl e \<Rightarrow> ParseRaise e
         | Inr (PStr s) \<Rightarrow> (case json_loads E s of None \<Rightarrow> BadJson | Some body \<Rightarrow> Body body)
         | Inr v \<Rightarrow> ParseRaise (TypeError
             (''the JSON object must be str, bytes or bytearray, not '' @ type_name v)))
      else Body event)"

text \<open>
  Lines 152 to 203, from the extraction of the fields to the success response: the
  response and the store after it, or the exception that leaves the \<open>try\<close> block.
\<close>

definition handle_body ::
  "env \<Rightarrow> 's table \<Rightarrow> 's \<Rightarrow> bool \<Rightarrow> pyval \<Rightarrow> py_exn + (pyval \<times> 's)" where
  "handle_body E T st gw body =
     (case py_get body ''websiteUrl'' PNone of Inl e \<Rightarrow> Inl e | Inr website_url \<Rightarrow>
     (case py_get body ''category'' (PStr ''General'') of Inl e \<Rightarrow> Inl e | Inr category \<Rightarrow>
     (case py_get body ''description'' (PStr []) of Inl e \<Rightarrow> Inl e | Inr description \<Rightarrow>
     (case py_get body ''scrapedData'' PNone of Inl e \<Rightarrow> Inl e | Inr scraped_data \<Rightarrow>
     (case py_get body ''userId'' (PStr ''default_user'') of Inl e \<Rightarrow> Inl e | Inr user_id \<Rightarrow>
       (if \<not> truthy website_url then
          Inr (create_response E (error_payload ''websiteUrl is required'') 400 gw, st)
        else if \<not> truthy scraped_data then
          Inr (create_response E (error_payload ''scrapedData is required'') 400 gw, st)
        else if \<not> validate_url E website_url then
          Inr (create_response E (error_payload ''Invalid website URL format'') 400 gw, st)
        else
          (case validate_scraped_data scraped_data of Inl e \<Rightarrow> Inl e | Inr shape_ok \<Rightarrow>
             if \<not> shape_ok then
               Inr (create_response E (error_payload ''Invalid scraped data structure'') 400 gw, st)
             else if check_duplicate_project T st user_id website_url then
               Inr (create_response E (error_payload ''Project already exists for this URL'') 409 gw, st)
             else
               (case create_project E T st user_id website_url category description scraped_data of
                  Inl e \<Rightarrow> Inl e
                | Inr (project, st') \<Rightarrow>
                    Inr (create_response E
                           (PDict [(''success'', PBool True), (''data'', project),
                                   (''message'', PStr ''Project created successfully'')])
                           201 gw, st')))))))))"

text \<open>\<open>lambda_handler\<close> (lines 133 to 211): the response and the store after the call.\<close>

definition lambda_handler :: "env \<Rightarrow> 's table \<Rightarrow> 's \<Rightarrow> pyval \<Rightarrow> pyval \<times> 's" where
  "lambda_handler E T st event =
     (let gw = is_api_gateway event
      in (case parse_body E event of
            BadJson \<Rightarrow> (create_response E (error_payload ''Invalid JSON in request body'') 400 True, st)
          | ParseRaise e \<Rightarrow> (internal_error E e gw, st)
          | Body body \<Rightarrow>
              (case handle_body E T st gw body of
                 Inl e \<Rightarrow> (internal_error E e gw, st)
               | Inr r \<Rightarrow> r)))"

section \<open>Concrete instances for the examples\<close>

text \<open>
  \<open>urlparse_ref\<close> follows CPython 3.12's \<open>urlsplit\<close> as far as the scheme and the netloc
  go: leading C0 control characters and spaces are stripped, tabs and newlines removed,
  the scheme is the text before the first colon when it starts with a letter and has
  scheme characters only, and the netloc is what follows \<open>//\<close> up to the first of
  \<open>/ ? #\<close>. An unmatched bracket in the netloc raises ValueError. The checks of a
  bracketed host and of non-ASCII hosts are left out.
\<close>

definition is_ascii_alpha :: "char \<Rightarrow> bool" where
  "is_ascii_alpha c = (c \<in> set ''abcdefghijklmnopqrstuvwxyzABCDEFGHIJKLMNOPQRSTUVWXYZ'')"

definition scheme_char :: "char \<Rightarrow> bool" where
  "scheme_char c = (is_ascii_alpha c \<or> c \<in> set ''0123456789+-.'')"

definition lower_char :: "char \<Rightarrow> char" where
  "lower_char c =
     (if c \<in> set ''ABCDEFGHIJKLMNOPQRSTUVWXYZ'' then char_of (of_char c + (32::nat)) else c)"

definition urlparse_ref :: "string \<Rightarrow> py_exn + (string \<times> string)" where
  "urlparse_ref url0 =
     (let url = dropWhile (\<lambda>c. of_char c \<le> (32::nat)) url0;
          url = filter (\<lambda>c. c \<notin> {CHR 0x09, CHR 0x0A, CHR 0x0D}) url;
          pre = takeWhile (\<lambda>c. c \<noteq> CHR '':'') url;
          has_scheme = (CHR '':'' \<in> set url \<and> pre \<noteq> [] \<and> is_ascii_alpha (hd url)
                        \<and> list_all scheme_char pre);
          scheme = (if has_scheme then map lower_char pre else []);
          url = (if has_scheme then drop (length pre + 1) url else url);
          netloc = (if take 2 url = ''//''
                    then takeWhile (\<lambda>c. c \<notin> {CHR ''/'', CHR ''?'', CHR ''#''}) (drop 2 url)
                    else [])
      in if (CHR ''['' \<in> set netloc) \<noteq> (CHR '']'' \<in> set netloc)
         then Inl (ValueError ''Invalid IPv6 URL'')
         else Inr (scheme, netloc))"

text \<open>
  The environment of the examples. They are direct invocations, on which the handler
  calls neither \<open>json.loads\<close> nor \<open>json.dumps\<close>; the two are left empty here.
\<close>

definition example_env :: env where
  "example_env =
     \<lparr> json_loads = (\<lambda>s. None),
       json_dumps = (\<lambda>v. []),
       urlparse = urlparse_ref,
       uuid4 = 0x3f2b8c4d9e1a4b7c8d6e5f4a3b2c1d0e,
       utcnow = \<lparr> year = 2024, month = 3, day = 5, hour = 14, minute = 7, second = 9,
                  microsecond = 123 \<rparr> \<rparr>"

text \<open>
  An in-memory table: the items in a list. The query keeps the items of the user whose
  \<open>website_url\<close> is the one asked for.
\<close>

definition item_matches :: "pyval \<Rightarrow> pyval \<Rightarrow> pyval \<Rightarrow> bool" where
  "item_matches user_id website_url item =
     (case item of
        PDict d \<Rightarrow> map_of d ''user_id'' = Some user_id \<and> map_of d ''website_url'' = Some website_url
      | _ \<Rightarrow> False)"

definition mem_table :: "pyval list table" where
  "mem_table =
     \<lparr> query = (\<lambda>st user_id website_url.
                  Inr (PDict [(''Items'', PList (filter (item_matches user_id website_url) st))])),
       put_item = (\<lambda>st item. Inr (st @ [item])) \<rparr>"

text \<open>The same table when every query fails.\<close>

definition down_table :: "pyval list table" where
  "down_table = mem_table \<lparr> query := (\<lambda>st user_id website_url. Inl (StoreError ''unavailable'')) \<rparr>"

text \<open>
  A request of user \<open>u1\<close> for \<open>https://a.com\<close>, the project the handler makes of it in
  the example environment, and a store that holds a project of that user for that URL.
\<close>

definition example_scraped :: pyval where
  "example_scraped =
     PDict [(''url'', PStr ''https://a.com''), (''title'', PStr ''A''), (''content'', PStr ''text'')]"

definition example_request :: dict where
  "example_request =
     [(''websiteUrl'', PStr ''https://a.com''), (''userId'', PStr ''u1''),
      (''scrapedData'', example_scraped)]"

definition example_project :: pyval where
  "example_project =
     PDict [(''user_id'', PStr ''u1''),
            (''project_id'', PStr ''project_3f2b8c4d9e1a''),
            (''website_url'', PStr ''https://a.com''),
            (''category'', PStr ''General''),
            (''description'', PStr []),
            (''title'', PStr ''A''),
            (''health_score'', PInt 15),
            (''last_checked'', PStr ''2024-03-05T14:07:09.000123Z''),
            (''status'', PStr ''active''),
            (''created_at'', PStr ''2024-03-05T14:07:09.000123Z''),
            (''updated_at'', PStr ''2024-03-05T14:07:09.000123Z''),
            (''scraped_data'', example_scraped)]"

definition example_store :: "pyval list" where
  "example_store =
     [PDict [(''user_id'', PStr ''u1''), (''project_id'', PStr ''project_000000000001''),
             (''website_url'', PStr ''https://a.com'')]]"

text \<open>The same request with an empty title, and the project made of it.\<close>

definition untitled_scraped :: pyval where
  "untitled_scraped =
     PDict [(''url'', PStr ''https://a.com''), (''title'', PStr []), (''content'', PStr ''text'')]"

definition untitled_project :: pyval where
  "untitled_project =
     PDict [(''user_id'', PStr ''u1''),
            (''project_id'', PStr ''project_3f2b8c4d9e1a''),
            (''website_url'', PStr ''https://a.com''),
            (''category'', PStr ''General''),
            (''description'', PStr []),
            (''title'', PStr []),
            (''health_score'', PInt 0),
            (''last_checked'', PStr ''2024-03-05T14:07:09.000123Z''),
            (''status'', PStr ''active''),
            (''created_at'', PStr ''2024-03-05T14:07:09.000123Z''),
            (''updated_at'', PStr ''2024-03-05T14:07:09.000123Z''),
            (''scraped_data'', untitled_scraped)]"

text \<open>The record of the specification's example, with every factor satisfied.\<close>

definition full_scraped :: dict where
  "full_scraped =
     [(''status_code'', PInt 200), (''content_length'', PInt 1500), (''title'', PStr ''T''),
      (''description'', PStr ''D''), (''links_count'', PInt 12), (''has_ssl'', PBool True),
      (''framework_detection'', PDict [(''react'', PBool True)])]"

section \<open>Formats named by the specification\<close>

text \<open>\<open>project_\<close> followed by exactly 12 lowercase hexadecimal characters.\<close>

definition is_project_id :: "string \<Rightarrow> bool" where
  "is_project_id s =
     (length s = 20 \<and> take 8 s = ''project_''
      \<and> list_all (\<lambda>c. c \<in> set ''0123456789abcdef'') (drop 8 s))"

section \<open>The scoring scheme of the specification\<close>

text \<open>
  The additive scheme as the specification words it: one contribution per factor, each
  read from its own key with the default of the source, and the sum clamped at 100.
  \<open>exceeds v n\<close> is \<open>v > n\<close> on a number.
\<close>

definition exceeds :: "pyval \<Rightarrow> int \<Rightarrow> bool" where
  "exceeds v n = (case as_float v of None \<Rightarrow> False | Some f \<Rightarrow> float_less (Finite (of_int n)) f)"

definition status_points :: "dict \<Rightarrow> int" where
  "status_points sd = (if py_eq_int (dict_get sd ''status_code'' (PInt 0)) 200 then 20 else 0)"

definition content_points :: "dict \<Rightarrow> int" where
  "content_points sd =
     (let v = dict_get sd ''content_length'' (PInt 0)
      in if exceeds v 1000 then 20 else if exceeds v 500 then 10 else 0)"

definition title_points :: "dict \<Rightarrow> int" where
  "title_points sd = (if truthy (dict_get sd ''title'' PNone) then 15 else 0)"

definition description_points :: "dict \<Rightarrow> int" where
  "description_points sd = (if truthy (dict_get sd ''description'' PNone) then 10 else 0)"

definition links_points :: "dict \<Rightarrow> int" where
  "links_points sd =
     (let v = dict_get sd ''links_count'' (PInt 0)
      in if exceeds v 10 then 15 else if exceeds v 5 then 10 else 0)"

definition ssl_points :: "dict \<Rightarrow> int" where
  "ssl_points sd = (if truthy (dict_get sd ''has_ssl'' (PBool False)) then 10 else 0)"

definition framework_points :: "dict \<Rightarrow> int" where
  "framework_points sd =
     (case dict_get sd ''framework_detection'' (PDict []) of
        PDict fd \<Rightarrow>
          (if truthy (dict_get fd ''react'' (PBool False))
              \<or> truthy (dict_get fd ''vue'' (PBool False))
              \<or> truthy (dict_get fd ''angular'' (PBool False)) then 10 else 0)
      | _ \<Rightarrow> 0)"

definition health_score_spec :: "dict \<Rightarrow> int" where
  "health_score_spec sd =
     min (status_points sd + content_points sd + title_points sd + description_points sd
          + links_points sd + ssl_points sd + framework_points sd) 100"

text \<open>
  The records on which the scorer does not raise: \<open>content_length\<close> and \<open>links_count\<close>
  are numbers where present, \<open>framework_detection\<close> is a dictionary where present.
\<close>

definition is_number :: "pyval \<Rightarrow> bool" where
  "is_number v = (as_float v \<noteq> None)"

definition is_dict :: "pyval \<Rightarrow> bool" where
  "is_dict v = (case v of PDict d \<Rightarrow> True | _ \<Rightarrow> False)"

definition well_typed :: "dict \<Rightarrow> bool" where
  "well_typed sd =
     ((case map_of sd ''content_length'' of None \<Rightarrow> True | Some v \<Rightarrow> is_number v)
      \<and> (case map_of sd ''links_count'' of None \<Rightarrow> True | Some v \<Rightarrow> is_number v)
      \<and> (case map_of sd ''framework_detection'' of None \<Rightarrow> True | Some v \<Rightarrow> is_dict v))"

text \<open>
  One factor improved, every other key unchanged: \<open>content_length\<close> or \<open>links_count\<close>
  raised (from its value or its default 0 to a number not below it, \<open>float_le\<close> being
  \<open>\<le>\<close> on floats), \<open>status_code\<close> set to 200, \<open>title\<close>, \<open>description\<close> or \<open>has_ssl\<close>
  set to a truthy value, or one of the three framework flags set to a truthy value.
\<close>

fun float_le :: "pyfloat \<Rightarrow> pyfloat \<Rightarrow> bool" where
  "float_le NaN b = False"
| "float_le a NaN = False"
| "float_le a b = (\<not> float_less b a)"

inductive improves :: "dict \<Rightarrow> dict \<Rightarrow> bool" where
  raise_content_length:
    "as_float (dict_get d ''content_length'' (PInt 0)) = Some a \<Longrightarrow> as_float v = Some b \<Longrightarrow>
     float_le a b \<Longrightarrow> improves d (dict_set d ''content_length'' v)"
| raise_links_count:
    "as_float (dict_get d ''links_count'' (PInt 0)) = Some a \<Longrightarrow> as_float v = Some b \<Longrightarrow>
     float_le a b \<Longrightarrow> improves d (dict_set d ''links_count'' v)"
| status_200: "improves d (dict_set d ''status_code'' (PInt 200))"
| title_non_empty: "truthy v \<Longrightarrow> improves d (dict_set d ''title'' v)"
| description_non_empty: "truthy v \<Longrightarrow> improves d (dict_set d ''description'' v)"
| has_ssl_truthy: "truthy v \<Longrightarrow> improves d (dict_set d ''has_ssl'' v)"
| framework_flag_truthy:
    "dict_get d ''framework_detection'' (PDict []) = PDict fd \<Longrightarrow>
     fw \<in> {''react'', ''vue'', ''angular''} \<Longrightarrow> truthy v \<Longrightarrow>
     improves d (dict_set d ''framework_detection'' (PDict (dict_set fd fw v)))"

text \<open>
  A valid ISO-8601 UTC timestamp, in the extended format: \<open>YYYY-MM-DDThh:mm:ss\<close>, an
  optional fraction of a second, then \<open>Z\<close>, with the month, day, hour, minute and second
  in their ranges. \<open>valid_datetime\<close> holds the field ranges of a \<open>datetime\<close> object.
\<close>

definition valid_datetime :: "datetime \<Rightarrow> bool" where
  "valid_datetime dt =
     (1 \<le> year dt \<and> year dt \<le> 9999 \<and> 1 \<le> month dt \<and> month dt \<le> 12
      \<and> 1 \<le> day dt \<and> day dt \<le> 31 \<and> hour dt < 24 \<and> minute dt < 60 \<and> second dt < 60
      \<and> microsecond dt < 1000000)"

definition is_digit :: "char \<Rightarrow> bool" where
  "is_digit c = (c \<in> set ''0123456789'')"

definition digit_value :: "char \<Rightarrow> nat" where
  "digit_value c = of_char c - 48"

definition digits_value :: "string \<Rightarrow> nat" where
  "digits_value s = foldl (\<lambda>n c. 10 * n + digit_value c) 0 s"

definition take_digits :: "nat \<Rightarrow> string \<Rightarrow> (nat \<times> string) option" where
  "take_digits k s =
     (if k \<le> length s \<and> list_all is_digit (take k s)
      then Some (digits_value (take k s), drop k s) else None)"

definition expect :: "char \<Rightarrow> string \<Rightarrow> string option" where
  "expect c s = (case s of [] \<Rightarrow> None | x # r \<Rightarrow> if x = c then Some r else None)"

definition fraction_and_z :: "string \<Rightarrow> bool" where
  "fraction_and_z s =
     (s = ''Z'' \<or>
      (case s of
         [] \<Rightarrow> False
       | c # r \<Rightarrow> c = CHR ''.'' \<and> r \<noteq> [] \<and> last r = CHR ''Z'' \<and> butlast r \<noteq> []
                  \<and> list_all is_digit (butlast r)))"

definition is_iso8601_utc :: "string \<Rightarrow> bool" where
  "is_iso8601_utc s =
     (case take_digits 4 s of None \<Rightarrow> False | Some (y, s) \<Rightarrow>
     (case expect (CHR ''-'') s of None \<Rightarrow> False | Some s \<Rightarrow>
     (case take_digits 2 s of None \<Rightarrow> False | Some (mo, s) \<Rightarrow>
     (case expect (CHR ''-'') s of None \<Rightarrow> False | Some s \<Rightarrow>
     (case take_digits 2 s of None \<Rightarrow> False | Some (d, s) \<Rightarrow>
     (case expect (CHR ''T'') s of None \<Rightarrow> False | Some s \<Rightarrow>
     (case take_digits 2 s of None \<Rightarrow> False | Some (h, s) \<Rightarrow>
     (case expect (CHR '':'') s of None \<Rightarrow> False | Some s \<Rightarrow>
     (case take_digits 2 s of None \<Rightarrow> False | Some (mi, s) \<Rightarrow>
     (case expect (CHR '':'') s of None \<Rightarrow> False | Some s \<Rightarrow>
     (case take_digits 2 s of None \<Rightarrow> False | Some (se, s) \<Rightarrow>
        1 \<le> mo \<and> mo \<le> 12 \<and> 1 \<le> d \<and> d \<le> 31 \<and> h \<le> 23 \<and> mi \<le> 59 \<and> se \<le> 59
        \<and> fraction_and_z s)))))))))))"

section \<open>The handler on a dictionary body\<close>

lemma handle_body_dict:
  "handle_body E T st gw (PDict b) =
     (let website_url = dict_get b ''websiteUrl'' PNone;
          category = dict_get b ''category'' (PStr ''General'');
          description = dict_get b ''description'' (PStr []);
          scraped_data = dict_get b ''scrapedData'' PNone;
          user_id = dict_get b ''userId'' (PStr ''default_user'')
      in if \<not> truthy website_url then
          Inr (create_response E (error_payload ''websiteUrl is required'') 400 gw, st)
        else if \<not> truthy scraped_data then
          Inr (create_response E (error_payload ''scrapedData is required'') 400 gw, st)
        else if \<not> validate_url E website_url then
          Inr (create_response E (error_payload ''Invalid website URL format'') 400 gw, st)
        else
          (case validate_scraped_data scraped_data of Inl e \<Rightarrow> Inl e | Inr shape_ok \<Rightarrow>
             if \<not> shape_ok then
               Inr (create_response E (error_payload ''Invalid scraped data structure'') 400 gw, st)
             else if check_duplicate_project T st user_id website_url then
               Inr (create_response E (error_payload ''Project already exists for this URL'') 409 gw, st)
             else
               (case create_project E T st user_id website_url category description scraped_data of
                  Inl e \<Rightarrow> Inl e
                | Inr (project, st') \<Rightarrow>
                    Inr (create_response E
                           (PDict [(''success'', PBool True), (''data'', project),
                                   (''message'', PStr ''Project created successfully'')])
                           201 gw, st'))))"
  by (simp add: handle_body_def py_get_def Let_def)

lemma lambda_handler_body:
  "parse_body E event = Body body \<Longrightarrow>
   lambda_handler E T st event =
     (case handle_body E T st (is_api_gateway event) body of
        Inl e \<Rightarrow> (internal_error E e (is_api_gateway event), st)
      | Inr r \<Rightarrow> r)"
  by (simp add: lambda_handler_def Let_def)

text \<open>A direct invocation: the event is the body.\<close>

lemma parse_body_direct:
  "map_of ev ''body'' = None \<Longrightarrow> parse_body E (PDict ev) = Body (PDict ev)"
  by (simp add: parse_body_def is_api_gateway_def)

section \<open>Facts about the model\<close>

lemma hexdigit_in: "n < 16 \<Longrightarrow> hexdigit n \<in> set ''0123456789abcdef''"
  unfolding hexdigit_def by (rule nth_mem) simp

lemma nibble_less: "unat (take_bit 4 (w :: 128 word)) < 16"
proof -
  have "unat (take_bit 4 w) = take_bit 4 (unat w)" by (rule unsigned_take_bit_eq)
  moreover have "take_bit 4 (unat w) < 2 ^ 4" by (rule take_bit_nat_less_exp)
  ultimately show ?thesis by simp
qed

lemma uuid_hex_length: "length (uuid_hex u) = 32"
  by (simp add: uuid_hex_def)

lemma uuid_hex_chars: "c \<in> set (uuid_hex u) \<Longrightarrow> c \<in> set ''0123456789abcdef''"
  unfolding uuid_hex_def using hexdigit_in [OF nibble_less] by auto

lemma generate_project_id_format: "is_project_id (generate_project_id E)"
proof -
  have "list_all (\<lambda>c. c \<in> set ''0123456789abcdef'') (take 12 (uuid_hex (uuid4 E)))"
    unfolding list_all_iff using uuid_hex_chars in_set_takeD by fast
  then show ?thesis
    by (simp add: is_project_id_def generate_project_id_def uuid_hex_length)
qed

lemma calculate_health_score_dict:
  "calculate_health_score x = Inr s \<Longrightarrow> \<exists>sd. x = PDict sd"
  by (cases x) (simp_all add: calculate_health_score_def)

lemma create_project_item:
  assumes "create_project E T st user_id website_url category description scraped_data = Inr (project, st')"
  shows "\<exists>sd health_score.
           scraped_data = PDict sd
         \<and> calculate_health_score scraped_data = Inr health_score
         \<and> project = PDict
                 [(''user_id'', user_id),
                  (''project_id'', PStr (generate_project_id E)),
                  (''website_url'', website_url),
                  (''category'', category),
                  (''description'', description),
                  (''title'', dict_get sd ''title'' website_url),
                  (''health_score'', PInt health_score),
                  (''last_checked'', PStr (isoformat (utcnow E) @ ''Z'')),
                  (''status'', PStr ''active''),
                  (''created_at'', PStr (isoformat (utcnow E) @ ''Z'')),
                  (''updated_at'', PStr (isoformat (utcnow E) @ ''Z'')),
                  (''scraped_data'', scraped_data)]
         \<and> put_item T st project = Inr st'"
proof -
  obtain h where h: "calculate_health_score scraped_data = Inr h"
    using assms by (auto simp add: create_project_def Let_def split: sum.splits)
  then obtain sd where sd: "scraped_data = PDict sd"
    using calculate_health_score_dict by blast
  show ?thesis
    using assms h unfolding sd
    by (auto simp add: create_project_def Let_def py_get_def split: sum.splits)
qed

lemma validate_scraped_data_dict:
  "validate_scraped_data (PDict d) =
     Inr (map_of d ''url'' \<noteq> None \<and> map_of d ''title'' \<noteq> None \<and> map_of d ''content'' \<noteq> None)"
  by (simp add: validate_scraped_data_def py_in_def)

text \<open>The scorer in normal form, and its value on every record.\<close>

lemma py_gt_int_number: "as_float v = Some f \<Longrightarrow> py_gt_int v n = Inr (exceeds v n)"
  by (simp add: py_gt_int_def exceeds_def)

lemma py_gt_int_other: "as_float v = None \<Longrightarrow> \<exists>e. py_gt_int v n = Inl e"
  by (simp add: py_gt_int_def)

lemma any_framework_dict:
  "any_framework (PDict fd) [''react'', ''vue'', ''angular''] =
     Inr (truthy (dict_get fd ''react'' (PBool False))
          \<or> truthy (dict_get fd ''vue'' (PBool False))
          \<or> truthy (dict_get fd ''angular'' (PBool False)))"
  by (simp add: py_get_def)

lemma any_framework_other:
  "\<not> is_dict v \<Longrightarrow> \<exists>e. any_framework v [''react'', ''vue'', ''angular''] = Inl e"
  by (cases v) (simp_all add: py_get_def is_dict_def)

lemma if_Inr: "(if g then Inr a else Inr b) = Inr (if g then a else b)"
  by simp

lemma add_points: "(if c then (s::int) + k else s) = s + (if c then k else 0)"
  by simp

lemma add_tier: "(if c then (s::int) + a else s + b) = s + (if c then a else b)"
  by simp

lemma score_normal_form:
  "calculate_health_score (PDict sd) =
     (case py_gt_int (dict_get sd ''content_length'' (PInt 0)) 1000 of Inl e \<Rightarrow> Inl e | Inr g1 \<Rightarrow>
     (case (if g1 then Inr False else py_gt_int (dict_get sd ''content_length'' (PInt 0)) 500) of
        Inl e \<Rightarrow> Inl e | Inr g2 \<Rightarrow>
     (case py_gt_int (dict_get sd ''links_count'' (PInt 0)) 10 of Inl e \<Rightarrow> Inl e | Inr g3 \<Rightarrow>
     (case (if g3 then Inr False else py_gt_int (dict_get sd ''links_count'' (PInt 0)) 5) of
        Inl e \<Rightarrow> Inl e | Inr g4 \<Rightarrow>
     (case any_framework (dict_get sd ''framework_detection'' (PDict []))
             [''react'', ''vue'', ''angular''] of
        Inl e \<Rightarrow> Inl e
      | Inr any_fw \<Rightarrow>
          Inr (min (status_points sd + (if g1 then 20 else if g2 then 10 else 0)
                    + title_points sd + description_points sd
                    + (if g3 then 15 else if g4 then 10 else 0)
                    + ssl_points sd + (if any_fw then 10 else 0)) 100))))))"
  by (simp add: calculate_health_score_def Let_def add_points add_tier
        status_points_def title_points_def description_points_def ssl_points_def
        del: any_framework.simps split del: if_split cong: if_cong sum.case_cong)

lemma well_typed_get:
  "well_typed sd \<longleftrightarrow>
     is_number (dict_get sd ''content_length'' (PInt 0))
     \<and> is_number (dict_get sd ''links_count'' (PInt 0))
     \<and> is_dict (dict_get sd ''framework_detection'' (PDict []))"
  by (simp add: well_typed_def dict_get_def is_number_def is_dict_def split: option.splits)

lemma score_well_typed:
  assumes "well_typed sd"
  shows "calculate_health_score (PDict sd) = Inr (health_score_spec sd)"
proof -
  obtain f1 where f1: "as_float (dict_get sd ''content_length'' (PInt 0)) = Some f1"
    using assms by (auto simp add: well_typed_get is_number_def)
  obtain f2 where f2: "as_float (dict_get sd ''links_count'' (PInt 0)) = Some f2"
    using assms by (auto simp add: well_typed_get is_number_def)
  obtain fd where fd: "dict_get sd ''framework_detection'' (PDict []) = PDict fd"
    using assms by (auto simp add: well_typed_get is_dict_def split: pyval.splits)
  show ?thesis
    by (simp add: score_normal_form py_gt_int_number [OF f1] py_gt_int_number [OF f2] fd
          any_framework_dict health_score_spec_def content_points_def links_points_def
          framework_points_def Let_def del: any_framework.simps)
qed

lemma score_ill_typed:
  assumes "\<not> well_typed sd"
  shows "\<exists>e. calculate_health_score (PDict sd) = Inl e"
proof -
  consider (a) "as_float (dict_get sd ''content_length'' (PInt 0)) = None"
    | (b) f1 where "as_float (dict_get sd ''content_length'' (PInt 0)) = Some f1"
        "as_float (dict_get sd ''links_count'' (PInt 0)) = None"
    | (c) f1 f2 where "as_float (dict_get sd ''content_length'' (PInt 0)) = Some f1"
        "as_float (dict_get sd ''links_count'' (PInt 0)) = Some f2"
        "\<not> is_dict (dict_get sd ''framework_detection'' (PDict []))"
    using assms by (auto simp add: well_typed_get is_number_def)
  then show ?thesis
  proof cases
    case a
    obtain e where "py_gt_int (dict_get sd ''content_length'' (PInt 0)) 1000 = Inl e"
      using py_gt_int_other [OF a] by blast
    then show ?thesis by (simp add: score_normal_form del: any_framework.simps)
  next
    case b
    obtain e where "py_gt_int (dict_get sd ''links_count'' (PInt 0)) 10 = Inl e"
      using py_gt_int_other [OF b(2)] by blast
    then show ?thesis
      by (simp add: score_normal_form py_gt_int_number [OF b(1)] del: any_framework.simps)
  next
    case c
    obtain e where "any_framework (dict_get sd ''framework_detection'' (PDict []))
                      [''react'', ''vue'', ''angular''] = Inl e"
      using any_framework_other [OF c(3)] by blast
    then show ?thesis
      by (simp add: score_normal_form py_gt_int_number [OF c(1)] py_gt_int_number [OF c(2)]
            del: any_framework.simps)
  qed
qed

lemma points_bounds:
  "0 \<le> status_points sd \<and> status_points sd \<le> 20"
  "0 \<le> content_points sd \<and> content_points sd \<le> 20"
  "0 \<le> title_points sd \<and> title_points sd \<le> 15"
  "0 \<le> description_points sd \<and> description_points sd \<le> 10"
  "0 \<le> links_points sd \<and> links_points sd \<le> 15"
  "0 \<le> ssl_points sd \<and> ssl_points sd \<le> 10"
  "0 \<le> framework_points sd \<and> framework_points sd \<le> 10"
  by (simp_all add: status_points_def content_points_def title_points_def
        description_points_def links_points_def ssl_points_def framework_points_def Let_def
        split: pyval.splits)

lemma spec_range: "0 \<le> health_score_spec sd \<and> health_score_spec sd \<le> 100"
  using points_bounds [of sd] by (simp add: health_score_spec_def)

text \<open>Improving a factor keeps the record well typed and does not lower its score.\<close>

lemma map_of_dict_set: "map_of (dict_set d k v) = (map_of d)(k \<mapsto> v)"
  by (induction d) auto

lemma dict_get_set:
  "dict_get (dict_set d k v) k' dflt = (if k' = k then v else dict_get d k' dflt)"
  by (simp add: dict_get_def map_of_dict_set)

lemma float_less_le: "float_less c a \<Longrightarrow> float_le a b \<Longrightarrow> float_less c b"
  by (cases a; cases b; cases c) auto

lemma exceeds_mono:
  "as_float u = Some a \<Longrightarrow> as_float v = Some b \<Longrightarrow> float_le a b \<Longrightarrow>
   exceeds u n \<Longrightarrow> exceeds v n"
  using float_less_le by (auto simp add: exceeds_def)

lemma score_defined:
  assumes "calculate_health_score (PDict d) = Inr s"
  shows "well_typed d \<and> s = health_score_spec d"
proof -
  have w: "well_typed d" using assms score_ill_typed [of d] by auto
  then show ?thesis using assms score_well_typed [OF w] by simp
qed

lemma improves_well_typed: "improves d d' \<Longrightarrow> well_typed d \<Longrightarrow> well_typed d'"
  by (induction rule: improves.induct)
     (simp_all add: well_typed_get dict_get_set is_number_def is_dict_def)

lemma improves_spec: "improves d d' \<Longrightarrow> health_score_spec d \<le> health_score_spec d'"
proof (induction rule: improves.induct)
  case (raise_content_length d a v b)
  have "content_points d \<le> content_points (dict_set d ''content_length'' v)"
    using exceeds_mono [OF raise_content_length]
    by (auto simp add: content_points_def dict_get_set Let_def)
  then show ?case
    by (simp add: health_score_spec_def status_points_def title_points_def
          description_points_def links_points_def ssl_points_def framework_points_def
          dict_get_set)
next
  case (raise_links_count d a v b)
  have "links_points d \<le> links_points (dict_set d ''links_count'' v)"
    using exceeds_mono [OF raise_links_count]
    by (auto simp add: links_points_def dict_get_set Let_def)
  then show ?case
    by (simp add: health_score_spec_def status_points_def title_points_def
          description_points_def content_points_def ssl_points_def framework_points_def
          dict_get_set)
next
  case (status_200 d)
  have "status_points d \<le> status_points (dict_set d ''status_code'' (PInt 200))"
    by (simp add: status_points_def dict_get_set py_eq_int_def)
  then show ?case
    by (simp add: health_score_spec_def links_points_def title_points_def
          description_points_def content_points_def ssl_points_def framework_points_def
          dict_get_set)
next
  case (title_non_empty v d)
  have "title_points d \<le> title_points (dict_set d ''title'' v)"
    using title_non_empty by (simp add: title_points_def dict_get_set)
  then show ?case
    by (simp add: health_score_spec_def links_points_def status_points_def
          description_points_def content_points_def ssl_points_def framework_points_def
          dict_get_set)
next
  case (description_non_empty v d)
  have "description_points d \<le> description_points (dict_set d ''description'' v)"
    using description_non_empty by (simp add: description_points_def dict_get_set)
  then show ?case
    by (simp add: health_score_spec_def links_points_def status_points_def
          title_points_def content_points_def ssl_points_def framework_points_def
          dict_get_set)
next
  case (has_ssl_truthy v d)
  have "ssl_points d \<le> ssl_points (dict_set d ''has_ssl'' v)"
    using has_ssl_truthy by (simp add: ssl_points_def dict_get_set)
  then show ?case
    by (simp add: health_score_spec_def links_points_def status_points_def
          title_points_def content_points_def description_points_def framework_points_def
          dict_get_set)
next
  case (framework_flag_truthy d fd fw v)
  have "framework_points (dict_set d ''framework_detection'' (PDict (dict_set fd fw v))) = 10"
    using framework_flag_truthy(2,3) by (auto simp add: framework_points_def dict_get_set)
  then have "framework_points d
               \<le> framework_points (dict_set d ''framework_detection'' (PDict (dict_set fd fw v)))"
    using points_bounds(7) [of d] by simp
  then show ?case
    by (simp add: health_score_spec_def links_points_def status_points_def
          title_points_def content_points_def description_points_def ssl_points_def
          dict_get_set)
qed

text \<open>The timestamp that \<open>isoformat\<close> prints is read back by the recogniser.\<close>

declare dec.simps [simp del]

lemma digit_is_digit: "is_digit (digit n)"
  unfolding is_digit_def digit_def by (rule nth_mem) simp

lemma digit_value_digit: "digit_value (digit n) = n mod 10"
proof -
  have k: "\<And>k::nat. k < 10 \<Longrightarrow>
      k = 0 \<or> k = 1 \<or> k = 2 \<or> k = 3 \<or> k = 4 \<or> k = 5 \<or> k = 6 \<or> k = 7 \<or> k = 8 \<or> k = 9"
    by arith
  have "n mod 10 < 10" by simp
  from k [OF this] show ?thesis
    by (auto simp add: digit_value_def digit_def)
qed

lemma dec_digits: "list_all is_digit (dec n)"
  by (induction n rule: dec.induct) (subst dec.simps, simp add: digit_is_digit)

lemma digits_value_snoc: "digits_value (s @ [c]) = 10 * digits_value s + digit_value c"
  by (simp add: digits_value_def)

lemma digits_value_dec: "digits_value (dec n) = n"
proof (induction n rule: dec.induct)
  case (1 n)
  show ?case
  proof (cases "n < 10")
    case True
    then show ?thesis
      by (subst dec.simps) (simp add: digits_value_def digit_value_digit)
  next
    case False
    then show ?thesis
      using 1 by (subst dec.simps) (simp add: digits_value_snoc digit_value_digit)
  qed
qed

lemma length_dec: "n < 10 ^ w \<Longrightarrow> 0 < w \<Longrightarrow> length (dec n) \<le> w"
proof (induction n arbitrary: w rule: dec.induct)
  case (1 n)
  show ?case
  proof (cases "n < 10")
    case True
    then show ?thesis using 1(3) by (subst dec.simps) simp
  next
    case False
    obtain v where v: "w = Suc v" using 1(3) by (cases w) auto
    have "v \<noteq> 0" using False 1(2) v by (cases v) auto
    moreover have "n div 10 < 10 ^ v" using 1(2) v by (simp add: less_mult_imp_div_less)
    ultimately have "length (dec (n div 10)) \<le> v" using 1(1) [OF False] by simp
    then show ?thesis using False v by (subst dec.simps) simp
  qed
qed

lemma length_zpad: "n < 10 ^ w \<Longrightarrow> 0 < w \<Longrightarrow> length (zpad w n) = w"
  using length_dec [of n w] by (simp add: zpad_def)

lemma zeros_digits: "list_all is_digit (replicate k (CHR ''0''))"
  by (induction k) (simp_all add: is_digit_def)

lemma zpad_digits: "list_all is_digit (zpad w n)"
  by (simp add: zpad_def dec_digits zeros_digits)

lemma digits_value_zeros: "digits_value (replicate k (CHR ''0'') @ s) = digits_value s"
  by (induction k) (simp_all add: digits_value_def digit_value_def)

lemma digits_value_zpad: "digits_value (zpad w n) = n"
  by (simp add: zpad_def digits_value_zeros digits_value_dec)

lemma take_digits_zpad:
  "n < 10 ^ w \<Longrightarrow> 0 < w \<Longrightarrow> take_digits w (zpad w n @ rest) = Some (n, rest)"
  by (simp add: take_digits_def length_zpad zpad_digits digits_value_zpad)

lemma expect_Cons: "expect c (c # s) = Some s"
  by (simp add: expect_def)

lemma fraction_zpad: "n < 10 ^ 6 \<Longrightarrow> fraction_and_z (CHR ''.'' # zpad 6 n @ ''Z'')"
proof -
  assume "n < 10 ^ 6"
  then have "length (zpad 6 n) = 6" by (simp add: length_zpad)
  then have "zpad 6 n \<noteq> []" by auto
  then show ?thesis
    by (simp add: fraction_and_z_def zpad_digits butlast_append)
qed

lemma isoformat_valid:
  assumes "valid_datetime dt"
  shows "is_iso8601_utc (isoformat dt @ ''Z'')"
proof -
  have t:
    "\<And>rest. take_digits 4 (zpad 4 (year dt) @ rest) = Some (year dt, rest)"
    "\<And>rest. take_digits 2 (zpad 2 (month dt) @ rest) = Some (month dt, rest)"
    "\<And>rest. take_digits 2 (zpad 2 (day dt) @ rest) = Some (day dt, rest)"
    "\<And>rest. take_digits 2 (zpad 2 (hour dt) @ rest) = Some (hour dt, rest)"
    "\<And>rest. take_digits 2 (zpad 2 (minute dt) @ rest) = Some (minute dt, rest)"
    "\<And>rest. take_digits 2 (zpad 2 (second dt) @ rest) = Some (second dt, rest)"
    using assms by (simp_all add: take_digits_zpad valid_datetime_def)
  have r: "1 \<le> month dt" "month dt \<le> 12" "1 \<le> day dt" "day dt \<le> 31" "hour dt \<le> 23"
    "minute dt \<le> 59" "second dt \<le> 59"
    using assms by (simp_all add: valid_datetime_def)
  have "microsecond dt < 10 ^ 6" using assms by (simp add: valid_datetime_def)
  then have f: "fraction_and_z (CHR ''.'' # zpad 6 (microsecond dt) @ ''Z'')"
    by (rule fraction_zpad)
  have z: "fraction_and_z ''Z''" by (simp add: fraction_and_z_def)
  show ?thesis
    using r f z
    by (simp add: is_iso8601_utc_def isoformat_def t expect_Cons del: One_nat_def)
qed

lemma isoformat_ends: "last (isoformat dt @ ''Z'') = CHR ''Z''"
  by simp

section \<open>Facts about the examples\<close>

lemma example_parse:
  "parse_body example_env (PDict example_request) = Body (PDict example_request)"
  by (simp add: parse_body_direct example_request_def)

lemma example_fields:
  "dict_get example_request ''websiteUrl'' PNone = PStr ''https://a.com''"
  "dict_get example_request ''scrapedData'' PNone = example_scraped"
  "dict_get example_request ''userId'' (PStr ''default_user'') = PStr ''u1''"
  "dict_get example_request ''category'' (PStr ''General'') = PStr ''General''"
  "dict_get example_request ''description'' (PStr []) = PStr []"
  by (simp_all add: dict_get_def example_request_def)

lemma example_direct: "\<not> is_api_gateway (PDict example_request)"
  by (simp add: is_api_gateway_def example_request_def)

lemma example_truthy: "truthy example_scraped"
  by (simp add: example_scraped_def)

lemma example_url_valid: "validate_url example_env (PStr ''https://a.com'')"
  by code_simp

lemma example_shape_valid: "validate_scraped_data example_scraped = Inr True"
  by code_simp

lemma example_duplicate:
  "check_duplicate_project mem_table example_store (PStr ''u1'') (PStr ''https://a.com'')"
  by code_simp

lemma example_create:
  "create_project example_env T st (PStr ''u1'') (PStr ''https://a.com'') (PStr ''General'')
     (PStr []) example_scraped =
   (case put_item T st example_project of Inl e \<Rightarrow> Inl e | Inr st' \<Rightarrow> Inr (example_project, st'))"
proof -
  have "generate_project_id example_env = ''project_3f2b8c4d9e1a''" by code_simp
  moreover have "isoformat (utcnow example_env) @ ''Z'' = ''2024-03-05T14:07:09.000123Z''"
    by code_simp
  moreover have "calculate_health_score example_scraped = Inr 15" by code_simp
  moreover have "py_get example_scraped ''title'' (PStr ''https://a.com'') = Inr (PStr ''A'')"
    by code_simp
  ultimately show ?thesis
    unfolding create_project_def example_project_def by (simp add: Let_def)
qed

section \<open>Properties of the health score\<close>

text \<open>
  C1, as amended. For every scraped-data record whose \<open>content_length\<close> and
  \<open>links_count\<close> are numbers where present and whose \<open>framework_detection\<close> is a
  dictionary where present, \<open>calculate_health_score\<close> returns an integer between 0 and
  100, equal to the minimum of the sum of the factor contributions and 100; a missing key
  raises nothing and contributes 0.
\<close>

theorem health_score_range:
  assumes "well_typed sd"
  shows "calculate_health_score (PDict sd) = Inr (health_score_spec sd)
       \<and> 0 \<le> health_score_spec sd \<and> health_score_spec sd \<le> 100
       \<and> (map_of sd ''status_code'' = None \<longrightarrow> status_points sd = 0)
       \<and> (map_of sd ''content_length'' = None \<longrightarrow> content_points sd = 0)
       \<and> (map_of sd ''title'' = None \<longrightarrow> title_points sd = 0)
       \<and> (map_of sd ''description'' = None \<longrightarrow> description_points sd = 0)
       \<and> (map_of sd ''links_count'' = None \<longrightarrow> links_points sd = 0)
       \<and> (map_of sd ''has_ssl'' = None \<longrightarrow> ssl_points sd = 0)
       \<and> (map_of sd ''framework_detection'' = None \<longrightarrow> framework_points sd = 0)"
proof -
  have missing:
    "map_of sd ''status_code'' = None \<longrightarrow> status_points sd = 0"
    "map_of sd ''content_length'' = None \<longrightarrow> content_points sd = 0"
    "map_of sd ''title'' = None \<longrightarrow> title_points sd = 0"
    "map_of sd ''description'' = None \<longrightarrow> description_points sd = 0"
    "map_of sd ''links_count'' = None \<longrightarrow> links_points sd = 0"
    "map_of sd ''has_ssl'' = None \<longrightarrow> ssl_points sd = 0"
    "map_of sd ''framework_detection'' = None \<longrightarrow> framework_points sd = 0"
    by (simp_all add: status_points_def content_points_def title_points_def
          description_points_def links_points_def ssl_points_def framework_points_def
          dict_get_def py_eq_int_def exceeds_def)
  show ?thesis
    using score_well_typed [OF assms] spec_range [of sd] missing by blast
qed

theorem health_score_range_witness:
  "well_typed full_scraped \<and> calculate_health_score (PDict full_scraped) = Inr 100
   \<and> well_typed [] \<and> calculate_health_score (PDict []) = Inr 0"
proof -
  have w: "well_typed full_scraped" "well_typed []"
    by (simp_all add: well_typed_def full_scraped_def is_number_def is_dict_def)
  have v: "health_score_spec full_scraped = 100" "health_score_spec [] = 0"
    by code_simp+
  show ?thesis
    using health_score_range [OF w(1)] health_score_range [OF w(2)] w v by simp
qed

text \<open>
  C1 as stated fails on a record that holds a value of another type under a compared key:
  with the string \<open>1500\<close> as \<open>content_length\<close> the comparison raises TypeError and no
  integer is returned.
\<close>

theorem health_score_range_counterexample:
  "calculate_health_score (PDict [(''content_length'', PStr ''1500'')])
     = Inl (TypeError (quoted ''>'' @ '' not supported between instances of ''
                       @ quoted ''str'' @ '' and '' @ quoted ''int''))"
  by code_simp

text \<open>
  C2. Let the scorer return a score on a record, and let one factor be improved while
  all other keys are unchanged: \<open>content_length\<close> or \<open>links_count\<close> raised,
  \<open>status_code\<close> set to 200, \<open>title\<close> or \<open>description\<close> made non-empty, \<open>has_ssl\<close> made
  truthy, or a \<open>framework_detection\<close> flag for react, vue or angular made truthy. Then the
  scorer returns a score on the new record too, and it is not below the first.
\<close>

theorem health_score_monotone:
  assumes "calculate_health_score (PDict d) = Inr s" and "improves d d'"
  shows "\<exists>s'. calculate_health_score (PDict d') = Inr s' \<and> s \<le> s'"
proof -
  have d: "well_typed d" "s = health_score_spec d"
    using score_defined [OF assms(1)] by simp_all
  have "well_typed d'" using improves_well_typed [OF assms(2) d(1)] .
  then have "calculate_health_score (PDict d') = Inr (health_score_spec d')"
    by (rule score_well_typed)
  then show ?thesis using improves_spec [OF assms(2)] d(2) by simp
qed

theorem health_score_monotone_witness:
  "calculate_health_score (PDict [(''content_length'', PInt 400)]) = Inr 0
   \<and> improves [(''content_length'', PInt 400)] [(''content_length'', PInt 1200)]
   \<and> calculate_health_score (PDict [(''content_length'', PInt 1200)]) = Inr 20"
proof -
  have s: "calculate_health_score (PDict [(''content_length'', PInt 400)]) = Inr 0"
    by code_simp
  have "improves [(''content_length'', PInt 400)]
          (dict_set [(''content_length'', PInt 400)] ''content_length'' (PInt 1200))"
    by (rule raise_content_length [where a = "Finite 400" and b = "Finite 1200"])
       (simp_all add: dict_get_def)
  then have i: "improves [(''content_length'', PInt 400)] [(''content_length'', PInt 1200)]"
    by simp
  have s': "calculate_health_score (PDict [(''content_length'', PInt 1200)]) = Inr 20"
    by code_simp
  show ?thesis
    using health_score_monotone [OF s i] s i s' by simp
qed

section \<open>Duplicates\<close>

text \<open>
  C3. When the handler reaches its duplicate check (the body is a dictionary whose
  \<open>websiteUrl\<close> and \<open>scrapedData\<close> pass the presence, URL and shape checks of lines 161 to
  186) and \<open>check_duplicate_project\<close> on the request's user and URL returns true, the
  response is the 409 response with \<open>success\<close> false and the error "Project already exists
  for this URL", and the store is returned unchanged: no insert is made.
\<close>

theorem duplicate_gives_409:
  assumes "parse_body E event = Body (PDict b)"
      and "truthy (dict_get b ''websiteUrl'' PNone)"
      and "truthy (dict_get b ''scrapedData'' PNone)"
      and "validate_url E (dict_get b ''websiteUrl'' PNone)"
      and "validate_scraped_data (dict_get b ''scrapedData'' PNone) = Inr True"
      and "check_duplicate_project T st (dict_get b ''userId'' (PStr ''default_user''))
             (dict_get b ''websiteUrl'' PNone)"
  shows "lambda_handler E T st event =
           (create_response E (error_payload ''Project already exists for this URL'') 409
              (is_api_gateway event), st)"
  using assms(2-) by (simp add: lambda_handler_body [OF assms(1)] handle_body_dict Let_def)

theorem duplicate_gives_409_witness:
  "lambda_handler example_env mem_table example_store (PDict example_request)
     = (error_payload ''Project already exists for this URL'', example_store)"
  using duplicate_gives_409 [OF example_parse, of mem_table example_store]
    example_truthy example_url_valid example_shape_valid example_duplicate
  by (simp add: example_fields example_direct create_response_def)

text \<open>
  C4. If the store's query raises, whatever the exception, \<open>check_duplicate_project\<close>
  returns false. In the handler the exception of the query is then neither a 409 nor a 500:
  a request that has passed the checks before goes on to the create step, and the response
  is the one that step gives (201, or the 500 of an exception raised by the create step
  itself).
\<close>

theorem store_error_fails_open:
  assumes "query T st user_id website_url = Inl e"
  shows "\<not> check_duplicate_project T st user_id website_url
       \<and> (parse_body E event = Body (PDict b)
          \<and> user_id = dict_get b ''userId'' (PStr ''default_user'')
          \<and> website_url = dict_get b ''websiteUrl'' PNone
          \<and> truthy website_url
          \<and> truthy (dict_get b ''scrapedData'' PNone)
          \<and> validate_url E website_url
          \<and> validate_scraped_data (dict_get b ''scrapedData'' PNone) = Inr True
          \<longrightarrow> lambda_handler E T st event =
               (case create_project E T st user_id website_url
                       (dict_get b ''category'' (PStr ''General''))
                       (dict_get b ''description'' (PStr []))
                       (dict_get b ''scrapedData'' PNone) of
                  Inl e' \<Rightarrow> (internal_error E e' (is_api_gateway event), st)
                | Inr (project, st') \<Rightarrow>
                    (create_response E
                       (PDict [(''success'', PBool True), (''data'', project),
                               (''message'', PStr ''Project created successfully'')])
                       201 (is_api_gateway event), st')))"
proof -
  have nd: "\<not> check_duplicate_project T st user_id website_url"
    using assms by (simp add: check_duplicate_project_def)
  show ?thesis
    using nd
    by (auto simp add: lambda_handler_body handle_body_dict Let_def split: sum.splits prod.splits)
qed

theorem store_error_fails_open_witness:
  "query down_table example_store (PStr ''u1'') (PStr ''https://a.com'')
     = Inl (StoreError ''unavailable'')
   \<and> \<not> check_duplicate_project down_table example_store (PStr ''u1'') (PStr ''https://a.com'')
   \<and> lambda_handler example_env down_table example_store (PDict example_request)
     = (PDict [(''success'', PBool True), (''data'', example_project),
               (''message'', PStr ''Project created successfully'')],
        example_store @ [example_project])"
proof -
  have q: "query down_table example_store (PStr ''u1'') (PStr ''https://a.com'')
             = Inl (StoreError ''unavailable'')"
    by (simp add: down_table_def)
  have c: "create_project example_env down_table example_store (PStr ''u1'')
             (PStr ''https://a.com'') (PStr ''General'') (PStr []) example_scraped
           = Inr (example_project, example_store @ [example_project])"
    by (simp add: example_create down_table_def mem_table_def)
  show ?thesis
    using store_error_fails_open [OF q, of example_env "PDict example_request" example_request]
      example_truthy example_url_valid example_shape_valid
    by (simp add: q c example_parse example_fields example_direct create_response_def)
qed

section \<open>The stored title\<close>

text \<open>
  C5, as amended. For every successful create, the stored title is the value under the
  key \<open>title\<close> of the scraped data whenever the key is present, also when that value is
  empty, and the website URL only when the key is absent. A record that passes the shape
  check has the key, so on the handler's path the stored title is always the supplied one.
\<close>

theorem stored_title:
  assumes "create_project E T st user_id website_url category description (PDict sd)
           = Inr (project, st')"
  shows "py_get project ''title'' PNone
           = Inr (case map_of sd ''title'' of Some title \<Rightarrow> title | None \<Rightarrow> website_url)
       \<and> (validate_scraped_data (PDict sd) = Inr True \<longrightarrow> map_of sd ''title'' \<noteq> None)"
proof -
  have "py_get project ''title'' PNone = Inr (dict_get sd ''title'' website_url)"
    using create_project_item [OF assms] by (auto simp add: py_get_def dict_get_def)
  then show ?thesis
    by (simp add: dict_get_def validate_scraped_data_dict)
qed

theorem stored_title_witness:
  "validate_scraped_data example_scraped = Inr True
   \<and> py_get example_project ''title'' PNone = Inr (PStr ''A'')"
proof -
  have c: "create_project example_env mem_table [] (PStr ''u1'')
             (PStr ''https://a.com'') (PStr ''General'') (PStr [])
             (PDict [(''url'', PStr ''https://a.com''), (''title'', PStr ''A''),
                     (''content'', PStr ''text'')])
           = Inr (example_project, [example_project])"
    using example_create [of mem_table "[]"] by (simp add: mem_table_def example_scraped_def)
  show ?thesis
    using stored_title [OF c] example_shape_valid by simp
qed

text \<open>
  C5 as stated fails on an empty title: the project is created, and its title is the empty
  string, not the URL.
\<close>

theorem stored_title_counterexample:
  "lambda_handler example_env mem_table []
     (PDict [(''websiteUrl'', PStr ''https://a.com''), (''userId'', PStr ''u1''),
             (''scrapedData'', untitled_scraped)])
     = (PDict [(''success'', PBool True), (''data'', untitled_project),
               (''message'', PStr ''Project created successfully'')], [untitled_project])
   \<and> py_get untitled_scraped ''title'' PNone = Inr (PStr [])
   \<and> py_get untitled_project ''title'' PNone = Inr (PStr [])
   \<and> py_get untitled_project ''website_url'' PNone = Inr (PStr ''https://a.com'')"
  by code_simp

section \<open>The URL check\<close>

text \<open>
  C6, as amended. \<open>validate_url\<close> is true exactly when \<open>urlparse\<close> returns a scheme and a
  netloc that are both non-empty; when \<open>urlparse\<close> raises, it is false and nothing is
  raised. For every request whose \<open>websiteUrl\<close> and \<open>scrapedData\<close> are both truthy and
  whose \<open>websiteUrl\<close> fails the check, the handler answers 400 "Invalid website URL
  format" and leaves the store as it was.
\<close>

theorem url_check:
  "(validate_url E (PStr s) \<longleftrightarrow>
      (\<exists>scheme netloc. urlparse E s = Inr (scheme, netloc) \<and> scheme \<noteq> [] \<and> netloc \<noteq> []))
   \<and> (\<forall>e. urlparse E s = Inl e \<longrightarrow> \<not> validate_url E (PStr s))
   \<and> (parse_body E event = Body (PDict b)
      \<and> truthy (dict_get b ''websiteUrl'' PNone)
      \<and> truthy (dict_get b ''scrapedData'' PNone)
      \<and> \<not> validate_url E (dict_get b ''websiteUrl'' PNone)
      \<longrightarrow> lambda_handler E T st event =
            (create_response E (error_payload ''Invalid website URL format'') 400
               (is_api_gateway event), st))"
  by (auto simp add: validate_url_def lambda_handler_body handle_body_dict Let_def
           split: sum.splits)

theorem url_check_witness:
  "validate_url example_env (PStr ''https://a.com'')
   \<and> \<not> validate_url example_env (PStr ''not-a-url'')
   \<and> lambda_handler example_env mem_table []
        (PDict [(''websiteUrl'', PStr ''not-a-url''), (''scrapedData'', example_scraped)])
      = (error_payload ''Invalid website URL format'', [])"
proof -
  let ?b = "[(''websiteUrl'', PStr ''not-a-url''), (''scrapedData'', example_scraped)]"
  have v: "\<not> validate_url example_env (PStr ''not-a-url'')" by code_simp
  have p: "parse_body example_env (PDict ?b) = Body (PDict ?b)"
    by (simp add: parse_body_direct)
  have g: "dict_get ?b ''websiteUrl'' PNone = PStr ''not-a-url''"
          "dict_get ?b ''scrapedData'' PNone = example_scraped"
    by (simp_all add: dict_get_def)
  have d: "\<not> is_api_gateway (PDict ?b)" by (simp add: is_api_gateway_def)
  show ?thesis
    using url_check [of example_env "''not-a-url''" "PDict ?b" ?b mem_table "[]"]
      v p example_truthy example_url_valid
    by (simp add: g d create_response_def)
qed

text \<open>
  C6 as stated fails where a presence check comes first: the empty string fails
  \<open>validate_url\<close>, and the handler answers "websiteUrl is required".
\<close>

theorem url_check_counterexample:
  "\<not> validate_url example_env (PStr [])
   \<and> lambda_handler example_env mem_table []
        (PDict [(''websiteUrl'', PStr []), (''scrapedData'', example_scraped)])
      = (error_payload ''websiteUrl is required'', [])
   \<and> error_payload ''websiteUrl is required'' \<noteq> error_payload ''Invalid website URL format''"
proof -
  let ?b = "[(''websiteUrl'', PStr []), (''scrapedData'', example_scraped)]"
  have v: "\<not> validate_url example_env (PStr [])" by code_simp
  have p: "parse_body example_env (PDict ?b) = Body (PDict ?b)"
    by (simp add: parse_body_direct)
  have h: "lambda_handler example_env mem_table [] (PDict ?b)
            = (error_payload ''websiteUrl is required'', [])"
    by (simp add: lambda_handler_body [OF p] handle_body_dict dict_get_def Let_def
          create_response_def is_api_gateway_def)
  show ?thesis using v h by (simp add: error_payload_def)
qed

section \<open>The shape check\<close>

text \<open>
  C7, as amended. On a dictionary \<open>validate_scraped_data\<close> is true exactly when the keys
  \<open>url\<close>, \<open>title\<close> and \<open>content\<close> are all present, whatever their values. For every
  request whose \<open>websiteUrl\<close> and \<open>scrapedData\<close> are both truthy, whose \<open>websiteUrl\<close>
  passes the URL check and whose \<open>scrapedData\<close> fails the shape check, the handler answers
  400 "Invalid scraped data structure" and leaves the store as it was.
\<close>

theorem shape_check:
  "validate_scraped_data (PDict d) =
     Inr (map_of d ''url'' \<noteq> None \<and> map_of d ''title'' \<noteq> None \<and> map_of d ''content'' \<noteq> None)
   \<and> (parse_body E event = Body (PDict b)
      \<and> truthy (dict_get b ''websiteUrl'' PNone)
      \<and> truthy (dict_get b ''scrapedData'' PNone)
      \<and> validate_url E (dict_get b ''websiteUrl'' PNone)
      \<and> validate_scraped_data (dict_get b ''scrapedData'' PNone) = Inr False
      \<longrightarrow> lambda_handler E T st event =
            (create_response E (error_payload ''Invalid scraped data structure'') 400
               (is_api_gateway event), st))"
  by (simp add: validate_scraped_data_dict lambda_handler_body handle_body_dict Let_def)

theorem shape_check_witness:
  "validate_scraped_data (PDict [(''url'', PStr []), (''title'', PNone), (''content'', PInt 0)])
     = Inr True
   \<and> validate_scraped_data (PDict [(''url'', PStr ''u''), (''content'', PStr ''c'')]) = Inr False
   \<and> lambda_handler example_env mem_table []
        (PDict [(''websiteUrl'', PStr ''https://a.com''),
                (''scrapedData'', PDict [(''url'', PStr ''u''), (''content'', PStr ''c'')])])
      = (error_payload ''Invalid scraped data structure'', [])"
proof -
  let ?sd = "PDict [(''url'', PStr ''u''), (''content'', PStr ''c'')]"
  let ?b = "[(''websiteUrl'', PStr ''https://a.com''), (''scrapedData'', ?sd)]"
  have p: "parse_body example_env (PDict ?b) = Body (PDict ?b)"
    by (simp add: parse_body_direct)
  have g: "dict_get ?b ''websiteUrl'' PNone = PStr ''https://a.com''"
          "dict_get ?b ''scrapedData'' PNone = ?sd"
    by (simp_all add: dict_get_def)
  have d: "\<not> is_api_gateway (PDict ?b)" by (simp add: is_api_gateway_def)
  show ?thesis
    using shape_check [of "[(''url'', PStr []), (''title'', PNone), (''content'', PInt 0)]"
        example_env "PDict ?b" ?b mem_table "[]"]
      shape_check [of "[(''url'', PStr ''u''), (''content'', PStr ''c'')]"
        example_env "PDict ?b" ?b mem_table "[]"]
      p example_url_valid
    by (simp add: g d create_response_def)
qed

text \<open>
  C7 as stated fails on the empty object: it has none of the three keys, and the handler
  answers "scrapedData is required".
\<close>

theorem shape_check_counterexample:
  "validate_scraped_data (PDict []) = Inr False
   \<and> lambda_handler example_env mem_table []
        (PDict [(''websiteUrl'', PStr ''https://a.com''), (''scrapedData'', PDict [])])
      = (error_payload ''scrapedData is required'', [])
   \<and> error_payload ''scrapedData is required'' \<noteq> error_payload ''Invalid scraped data structure''"
proof -
  let ?b = "[(''websiteUrl'', PStr ''https://a.com''), (''scrapedData'', PDict [])]"
  have p: "parse_body example_env (PDict ?b) = Body (PDict ?b)"
    by (simp add: parse_body_direct)
  have h: "lambda_handler example_env mem_table [] (PDict ?b)
            = (error_payload ''scrapedData is required'', [])"
    by (simp add: lambda_handler_body [OF p] handle_body_dict dict_get_def Let_def
          create_response_def is_api_gateway_def)
  show ?thesis using h by (simp add: validate_scraped_data_dict error_payload_def)
qed

section \<open>Successful creates\<close>

text \<open>
  C8. A successful create is a request that passes the four checks, is no duplicate, and
  whose \<open>create_project\<close> returns. The handler then answers with the 201 response whose
  payload has \<open>success\<close> true, the created project as \<open>data\<close> and the message "Project
  created successfully", and the \<open>project_id\<close> of the project is \<open>project_\<close> followed by
  exactly 12 lowercase hexadecimal characters.
\<close>

theorem successful_create:
  assumes "parse_body E event = Body (PDict b)"
      and "truthy (dict_get b ''websiteUrl'' PNone)"
      and "truthy (dict_get b ''scrapedData'' PNone)"
      and "validate_url E (dict_get b ''websiteUrl'' PNone)"
      and "validate_scraped_data (dict_get b ''scrapedData'' PNone) = Inr True"
      and "\<not> check_duplicate_project T st (dict_get b ''userId'' (PStr ''default_user''))
             (dict_get b ''websiteUrl'' PNone)"
      and "create_project E T st (dict_get b ''userId'' (PStr ''default_user''))
             (dict_get b ''websiteUrl'' PNone) (dict_get b ''category'' (PStr ''General''))
             (dict_get b ''description'' (PStr [])) (dict_get b ''scrapedData'' PNone)
           = Inr (project, st')"
  shows "lambda_handler E T st event =
           (create_response E
              (PDict [(''success'', PBool True), (''data'', project),
                      (''message'', PStr ''Project created successfully'')])
              201 (is_api_gateway event), st')
       \<and> (\<exists>pid. py_get project ''project_id'' PNone = Inr (PStr pid) \<and> is_project_id pid)"
proof -
  have r: "lambda_handler E T st event =
           (create_response E
              (PDict [(''success'', PBool True), (''data'', project),
                      (''message'', PStr ''Project created successfully'')])
              201 (is_api_gateway event), st')"
    using assms(2-) by (simp add: lambda_handler_body [OF assms(1)] handle_body_dict Let_def)
  have "py_get project ''project_id'' PNone = Inr (PStr (generate_project_id E))"
    using create_project_item [OF assms(7)] by (auto simp add: py_get_def dict_get_def)
  then show ?thesis using r generate_project_id_format by blast
qed

theorem successful_create_witness:
  "lambda_handler example_env mem_table [] (PDict example_request)
     = (PDict [(''success'', PBool True), (''data'', example_project),
               (''message'', PStr ''Project created successfully'')], [example_project])
   \<and> py_get example_project ''project_id'' PNone = Inr (PStr ''project_3f2b8c4d9e1a'')
   \<and> is_project_id ''project_3f2b8c4d9e1a''"
proof -
  have nd: "\<not> check_duplicate_project mem_table [] (PStr ''u1'') (PStr ''https://a.com'')"
    by code_simp
  have c: "create_project example_env mem_table [] (PStr ''u1'')
             (PStr ''https://a.com'') (PStr ''General'') (PStr []) example_scraped
           = Inr (example_project, [example_project])"
    by (simp add: example_create mem_table_def)
  have i: "py_get example_project ''project_id'' PNone = Inr (PStr ''project_3f2b8c4d9e1a'')"
    by (simp add: py_get_def dict_get_def example_project_def)
  show ?thesis
    using successful_create [OF example_parse, of mem_table "[]" example_project "[example_project]"]
      example_truthy example_url_valid example_shape_valid nd c
    by (simp add: example_fields example_direct create_response_def i)
qed

section \<open>Timestamps\<close>

text \<open>
  C9. On every project that \<open>create_project\<close> returns, with the clock reading a valid
  datetime, the fields \<open>created_at\<close>, \<open>updated_at\<close> and \<open>last_checked\<close> hold one and the
  same string, which is a valid ISO-8601 UTC timestamp and ends in \<open>Z\<close>.
\<close>

theorem fresh_timestamps:
  assumes "create_project E T st user_id website_url category description scraped_data
           = Inr (project, st')"
      and "valid_datetime (utcnow E)"
  shows "\<exists>ts. py_get project ''created_at'' PNone = Inr (PStr ts)
            \<and> py_get project ''updated_at'' PNone = Inr (PStr ts)
            \<and> py_get project ''last_checked'' PNone = Inr (PStr ts)
            \<and> is_iso8601_utc ts \<and> ts \<noteq> [] \<and> last ts = CHR ''Z''"
proof -
  let ?ts = "isoformat (utcnow E) @ ''Z''"
  have "py_get project ''created_at'' PNone = Inr (PStr ?ts)"
       "py_get project ''updated_at'' PNone = Inr (PStr ?ts)"
       "py_get project ''last_checked'' PNone = Inr (PStr ?ts)"
    using create_project_item [OF assms(1)] by (auto simp add: py_get_def dict_get_def)
  moreover have "is_iso8601_utc ?ts" using assms(2) by (rule isoformat_valid)
  moreover have "?ts \<noteq> []" "last ?ts = CHR ''Z''" by simp_all
  ultimately show ?thesis by blast
qed

theorem fresh_timestamps_witness:
  "valid_datetime (utcnow example_env)
   \<and> py_get example_project ''created_at'' PNone = Inr (PStr ''2024-03-05T14:07:09.000123Z'')
   \<and> py_get example_project ''updated_at'' PNone = Inr (PStr ''2024-03-05T14:07:09.000123Z'')
   \<and> py_get example_project ''last_checked'' PNone = Inr (PStr ''2024-03-05T14:07:09.000123Z'')
   \<and> is_iso8601_utc ''2024-03-05T14:07:09.000123Z''"
proof -
  have v: "valid_datetime (utcnow example_env)"
    by (simp add: valid_datetime_def example_env_def)
  have c: "create_project example_env mem_table [] (PStr ''u1'')
             (PStr ''https://a.com'') (PStr ''General'') (PStr []) example_scraped
           = Inr (example_project, [example_project])"
    by (simp add: example_create mem_table_def)
  have g: "py_get example_project ''created_at'' PNone = Inr (PStr ''2024-03-05T14:07:09.000123Z'')"
    "py_get example_project ''updated_at'' PNone = Inr (PStr ''2024-03-05T14:07:09.000123Z'')"
    "py_get example_project ''last_checked'' PNone = Inr (PStr ''2024-03-05T14:07:09.000123Z'')"
    by (simp_all add: py_get_def dict_get_def example_project_def)
  show ?thesis
    using fresh_timestamps [OF c v] v g by auto
qed

section \<open>Presence checks\<close>

text \<open>
  C10. Let the body of the request be a dictionary. If \<open>websiteUrl\<close> is falsy (the empty
  string, \<open>None\<close>, or absent) the handler answers 400 "websiteUrl is required"; if
  \<open>websiteUrl\<close> is truthy and \<open>scrapedData\<close> is falsy (the empty object, or absent) it
  answers 400 "scrapedData is required". In both cases the store is returned as it was, and
  the answer is the same whatever \<open>urlparse\<close> and the table would do: neither the URL check
  nor the shape check nor the store is consulted.
\<close>

theorem falsy_field_is_missing:
  assumes "parse_body E event = Body (PDict b)"
  shows "(\<not> truthy (dict_get b ''websiteUrl'' PNone) \<longrightarrow>
            lambda_handler E T st event =
              (create_response E (error_payload ''websiteUrl is required'') 400
                 (is_api_gateway event), st))
       \<and> (truthy (dict_get b ''websiteUrl'' PNone) \<and> \<not> truthy (dict_get b ''scrapedData'' PNone) \<longrightarrow>
            lambda_handler E T st event =
              (create_response E (error_payload ''scrapedData is required'') 400
                 (is_api_gateway event), st))"
  by (simp add: lambda_handler_body [OF assms] handle_body_dict Let_def)

theorem falsy_field_is_missing_witness:
  "lambda_handler example_env mem_table []
     (PDict [(''websiteUrl'', PStr []), (''scrapedData'', PDict [(''url'', PStr ''u'')])])
     = (error_payload ''websiteUrl is required'', [])
   \<and> lambda_handler example_env mem_table []
     (PDict [(''websiteUrl'', PStr ''not-a-url''), (''scrapedData'', PDict [])])
     = (error_payload ''scrapedData is required'', [])"
  using
    falsy_field_is_missing [of example_env
      "PDict [(''websiteUrl'', PStr []), (''scrapedData'', PDict [(''url'', PStr ''u'')])]"
      "[(''websiteUrl'', PStr []), (''scrapedData'', PDict [(''url'', PStr ''u'')])]"
      mem_table "[]"]
    falsy_field_is_missing [of example_env
      "PDict [(''websiteUrl'', PStr ''not-a-url''), (''scrapedData'', PDict [])]"
      "[(''websiteUrl'', PStr ''not-a-url''), (''scrapedData'', PDict [])]"
      mem_table "[]"]
  by (simp add: parse_body_direct dict_get_def create_response_def is_api_gateway_def)

end
